theory Spec2Isabelle
  imports Complex_Main "HOL-Library.Sublist"
begin

section \<open>The page script of EDUCATUM, embedded\<close>

text \<open>
  \<^verbatim>\<open>src/script.js\<close> holds two variants of one page script. The first
  (lines 1 to 1524, storage key \<^verbatim>\<open>education_theme\<close>) wraps its methods in
  \<^verbatim>\<open>try/catch\<close> and guards its element look-ups; the second (from line 1525,
  storage key \<^verbatim>\<open>educatum_theme\<close>) is the same script without those guards.
  Definitions that embed the first variant end in \<open>_A\<close>, those of the second in
  \<open>_B\<close>; a definition without a suffix is code that both variants share word
  for word.

  JavaScript numbers are modelled as \<^typ>\<open>real\<close>: rounding of IEEE doubles is not
  part of the model. The concrete inputs evaluated below are chosen so that the double
  arithmetic of the source gives the values stated (the particle example is dyadic
  throughout).
\<close>

subsection \<open>Exceptions\<close>

datatype js_error = SecurityError | QuotaExceededError | TypeError | ReferenceError

text \<open>Truthiness of a value that is \<^verbatim>\<open>null\<close> or a string.\<close>

fun truthy :: "string option \<Rightarrow> bool" where
  "truthy None = False"
| "truthy (Some s) = (s \<noteq> [])"

subsection \<open>Particle system (lines 723 to 844 and 1933 to 2017)\<close>

text \<open>
  A particle as \<^verbatim>\<open>createParticles\<close> pushes it: position in percent, velocity in
  percent per frame, size, and the style of the element it owns (\<open>el_left\<close>,
  \<open>el_top\<close> in percent; \<open>el_attached\<close> says the element has a parent node).
\<close>

record particle =
  pos_x :: real
  pos_y :: real
  vx :: real
  vy :: real
  psize :: real
  el_left :: real
  el_top :: real
  el_attached :: bool

text \<open>
  \<^verbatim>\<open>getRandomFloat = (min, max) => Math.random() * (max - min) + min\<close>; the
  first argument is the value \<^verbatim>\<open>Math.random()\<close> returned.
\<close>

definition getRandomFloat :: "real \<Rightarrow> real \<Rightarrow> real \<Rightarrow> real" where
  "getRandomFloat r mn mx = r * (mx - mn) + mn"

text \<open>
  The browser as the particle system sees it: the viewport width, the answer of the
  \<^verbatim>\<open>(prefers-reduced-motion: reduce)\<close> query and the sequence of values that
  \<^verbatim>\<open>Math.random()\<close> returns, call by call.
\<close>

record particle_env =
  innerWidth :: int
  prefersReducedMotion :: bool
  math_random :: "nat \<Rightarrow> real"

text \<open>
  The system's fields, the number of \<^verbatim>\<open>Math.random()\<close> calls made so far, and
  the browser's queue of animation frames requested by this object: the handles not yet
  run or cancelled, and the next handle \<^verbatim>\<open>requestAnimationFrame\<close> will return.
  The second variant has no \<open>animationFrameId\<close> field; there it stays \<open>None\<close>.
\<close>

record particle_system =
  container :: bool
  particles :: "particle list"
  isActive :: bool
  animationFrameId :: "nat option"
  random_calls :: nat
  ps_pending :: "nat list"
  ps_next_handle :: nat

text \<open>One pass of the body of the \<^verbatim>\<open>for\<close> loop: seven random draws, in source order.\<close>

definition createParticle :: "(nat \<Rightarrow> real) \<Rightarrow> nat \<Rightarrow> particle" where
  "createParticle rnd k =
     (let px = getRandomFloat (rnd k) 0 100;
          py = getRandomFloat (rnd (k + 1)) 0 100;
          sz = getRandomFloat (rnd (k + 2)) 2 6;
          duration = getRandomFloat (rnd (k + 3)) 10 30;
          delay = getRandomFloat (rnd (k + 4)) 0 duration
      in \<lparr>pos_x = px, pos_y = py,
          vx = getRandomFloat (rnd (k + 5)) (-0.5) 0.5,
          vy = getRandomFloat (rnd (k + 6)) (-0.5) 0.5,
          psize = sz, el_left = px, el_top = py, el_attached = True\<rparr>)"

text \<open>
  The loop \<^verbatim>\<open>for (let i = 0; i < particleCount; i++)\<close>, by the iterations left.
  Its \<^verbatim>\<open>this.container.appendChild(particle)\<close> needs the container: the model is
  that of a system whose container exists, which is the only way the script reaches
  \<^verbatim>\<open>createParticles\<close> (the constructor calls \<^verbatim>\<open>init\<close> under
  \<^verbatim>\<open>if (this.container)\<close>).
\<close>

fun createParticles_loop :: "nat \<Rightarrow> (nat \<Rightarrow> real) \<Rightarrow> particle_system \<Rightarrow> particle_system" where
  "createParticles_loop 0 rnd s = s"
| "createParticles_loop (Suc n) rnd s =
     createParticles_loop n rnd
       (s\<lparr>particles := particles s @ [createParticle rnd (random_calls s)],
          random_calls := random_calls s + 7\<rparr>)"

definition particleCount :: "int \<Rightarrow> int" where
  "particleCount w = min 50 (w div 30)"

definition createParticles :: "particle_env \<Rightarrow> particle_system \<Rightarrow> particle_system" where
  "createParticles env s = createParticles_loop (nat (particleCount (innerWidth env))) (math_random env) s"

text \<open>The body of \<^verbatim>\<open>particles.forEach\<close> in \<^verbatim>\<open>animate\<close>.\<close>

definition advance :: "particle \<Rightarrow> particle" where
  "advance p =
     (let px = pos_x p + vx p;
          py = pos_y p + vy p;
          vx' = (if px < 0 \<or> px > 100 then vx p * (-1) else vx p);
          vy' = (if py < 0 \<or> py > 100 then vy p * (-1) else vy p)
      in p\<lparr>pos_x := px, pos_y := py, vx := vx', vy := vy', el_left := px, el_top := py\<rparr>)"

text \<open>\<^verbatim>\<open>requestAnimationFrame(() => this.animate())\<close>: the handle returned is queued.\<close>

definition ps_request_frame :: "particle_system \<Rightarrow> nat \<times> particle_system" where
  "ps_request_frame s =
     (ps_next_handle s,
      s\<lparr>ps_pending := ps_pending s @ [ps_next_handle s], ps_next_handle := ps_next_handle s + 1\<rparr>)"

definition animate_A :: "particle_system \<Rightarrow> particle_system" where
  "animate_A s =
     (if \<not> isActive s then s
      else (let (h, s') = ps_request_frame (s\<lparr>particles := map advance (particles s)\<rparr>)
            in s'\<lparr>animationFrameId := Some h\<rparr>))"

definition animate_B :: "particle_system \<Rightarrow> particle_system" where
  "animate_B s =
     (if \<not> isActive s then s
      else snd (ps_request_frame (s\<lparr>particles := map advance (particles s)\<rparr>)))"

text \<open>
  \<^verbatim>\<open>init\<close> calls \<^verbatim>\<open>animate()\<close> before it sets \<^verbatim>\<open>isActive\<close>; the order is
  the source's.
\<close>

definition init_A :: "particle_env \<Rightarrow> particle_system \<Rightarrow> particle_system" where
  "init_A env s =
     (if innerWidth env > 768 \<and> \<not> prefersReducedMotion env
      then (animate_A (createParticles env s))\<lparr>isActive := True\<rparr>
      else s)"

definition init_B :: "particle_env \<Rightarrow> particle_system \<Rightarrow> particle_system" where
  "init_B env s =
     (if innerWidth env > 768 \<and> \<not> prefersReducedMotion env
      then (animate_B (createParticles env s))\<lparr>isActive := True\<rparr>
      else s)"

text \<open>
  The constructor; \<open>has_container\<close> says whether \<^verbatim>\<open>#heroParticles\<close> exists and
  \<open>h\<close> is the browser's next frame handle.
\<close>

definition fresh_particle_system :: "bool \<Rightarrow> nat \<Rightarrow> particle_system" where
  "fresh_particle_system has_container h =
     \<lparr>container = has_container, particles = [], isActive = False, animationFrameId = None,
      random_calls = 0, ps_pending = [], ps_next_handle = h\<rparr>"

definition new_ParticleSystem_A :: "particle_env \<Rightarrow> bool \<Rightarrow> nat \<Rightarrow> particle_system" where
  "new_ParticleSystem_A env has_container h =
     (let s = fresh_particle_system has_container h
      in if has_container then init_A env s else s)"

definition new_ParticleSystem_B :: "particle_env \<Rightarrow> bool \<Rightarrow> nat \<Rightarrow> particle_system" where
  "new_ParticleSystem_B env has_container h =
     (let s = fresh_particle_system has_container h
      in if has_container then init_B env s else s)"

text \<open>
  \<^verbatim>\<open>destroy\<close>. A handle is truthy when it is not 0; \<^verbatim>\<open>cancelAnimationFrame\<close>
  takes the handle out of the queue. The elements are removed from the document and the
  particle records dropped with the list.
\<close>

definition ps_cancel_frame :: "nat \<Rightarrow> particle_system \<Rightarrow> particle_system" where
  "ps_cancel_frame h s = s\<lparr>ps_pending := removeAll h (ps_pending s)\<rparr>"

definition destroy_A :: "particle_system \<Rightarrow> particle_system" where
  "destroy_A s =
     (let s1 = s\<lparr>isActive := False\<rparr>;
          s2 = (case animationFrameId s1 of
                  None \<Rightarrow> s1
                | Some h \<Rightarrow> if h \<noteq> 0 then ps_cancel_frame h s1 else s1)
      in s2\<lparr>particles := []\<rparr>)"

definition destroy_B :: "particle_system \<Rightarrow> particle_system" where
  "destroy_B s = s\<lparr>isActive := False, particles := []\<rparr>"

text \<open>
  A frame of the browser: every callback queued when the frame starts runs once;
  what a callback requests waits for the next frame.
\<close>

definition frame_tick_A :: "particle_system \<Rightarrow> particle_system" where
  "frame_tick_A s = fold (\<lambda>_. animate_A) (ps_pending s) (s\<lparr>ps_pending := []\<rparr>)"

definition frame_tick_B :: "particle_system \<Rightarrow> particle_system" where
  "frame_tick_B s = fold (\<lambda>_. animate_B) (ps_pending s) (s\<lparr>ps_pending := []\<rparr>)"

text \<open>
  The application's \<^verbatim>\<open>pauseAnimations\<close> and \<^verbatim>\<open>resumeAnimations\<close> (page hidden,
  page visible again), on the particle system it holds.
\<close>

definition pauseAnimations :: "particle_system \<Rightarrow> particle_system" where
  "pauseAnimations s = s\<lparr>isActive := False\<rparr>"

definition resumeAnimations_A :: "particle_system \<Rightarrow> particle_system" where
  "resumeAnimations_A s = animate_A (s\<lparr>isActive := True\<rparr>)"

definition resumeAnimations_B :: "particle_system \<Rightarrow> particle_system" where
  "resumeAnimations_B s = animate_B (s\<lparr>isActive := True\<rparr>)"

datatype ps_event = Frame | PageHidden | PageVisible

fun ps_step_A :: "ps_event \<Rightarrow> particle_system \<Rightarrow> particle_system" where
  "ps_step_A Frame s = frame_tick_A s"
| "ps_step_A PageHidden s = pauseAnimations s"
| "ps_step_A PageVisible s = resumeAnimations_A s"

fun ps_step_B :: "ps_event \<Rightarrow> particle_system \<Rightarrow> particle_system" where
  "ps_step_B Frame s = frame_tick_B s"
| "ps_step_B PageHidden s = pauseAnimations s"
| "ps_step_B PageVisible s = resumeAnimations_B s"

subsection \<open>Client storage (lines 15 to 46 and 1528 to 1531)\<close>

text \<open>
  \<^verbatim>\<open>localStorage\<close> as the script uses it: the stored items, and the two ways an
  access fails. A \<open>blocked\<close> storage throws on every access; a storage whose
  \<open>quota_full\<close> holds throws on \<^verbatim>\<open>setItem\<close> only.
\<close>

record storage =
  items :: "string \<rightharpoonup> string"
  blocked :: bool
  quota_full :: bool

definition getItem :: "storage \<Rightarrow> string \<Rightarrow> js_error + string option" where
  "getItem st k = (if blocked st then Inl SecurityError else Inr (items st k))"

definition setItem :: "storage \<Rightarrow> string \<Rightarrow> string \<Rightarrow> js_error + storage" where
  "setItem st k v =
     (if blocked st then Inl SecurityError
      else if quota_full st then Inl QuotaExceededError
      else Inr (st\<lparr>items := (items st)(k \<mapsto> v)\<rparr>))"

definition removeItem :: "storage \<Rightarrow> string \<Rightarrow> js_error + storage" where
  "removeItem st k =
     (if blocked st then Inl SecurityError else Inr (st\<lparr>items := (items st)(k := None)\<rparr>))"

definition THEME_A :: string where
  "THEME_A = ''education_theme''"

definition THEME_B :: string where
  "THEME_B = ''educatum_theme''"

text \<open>
  The first variant's constant \<^verbatim>\<open>isLocalStorageAvailable\<close>, computed once when the
  script loads: a test item is written and removed inside \<^verbatim>\<open>try/catch\<close>. The second
  variant has no such constant.
\<close>

definition isLocalStorageAvailable :: "storage \<Rightarrow> bool" where
  "isLocalStorageAvailable st =
     (case setItem st ''__localStorage_test__'' ''__localStorage_test__'' of
        Inl e \<Rightarrow> False
      | Inr st' \<Rightarrow> (case removeItem st' ''__localStorage_test__'' of
                     Inl e \<Rightarrow> False
                   | Inr st'' \<Rightarrow> True))"

subsection \<open>Theme manager (lines 209 to 302 and 1634 to 1682)\<close>

text \<open>
  The toggle button: the class of its \<^verbatim>\<open><i>\<close> child (\<open>None\<close> when it has no
  such child) and its \<^verbatim>\<open>aria-pressed\<close> attribute.
\<close>

record theme_toggle =
  icon_class :: "string option"
  aria_pressed :: "string option"

text \<open>
  The manager's fields and the parts of the document it writes: the root's
  \<^verbatim>\<open>data-theme\<close> attribute, the body's transition style and the number of 300ms
  timers waiting to clear it.
\<close>

record theme_manager =
  themeToggle :: "theme_toggle option"
  currentTheme :: string
  data_theme :: "string option"
  body_transition :: string
  transition_timers :: nat

text \<open>
  \<^verbatim>\<open>getInitialTheme\<close>. The first argument of the first variant is the constant
  \<^verbatim>\<open>isLocalStorageAvailable\<close>. \<open>mm\<close> is \<open>None\<close> when \<^verbatim>\<open>window.matchMedia\<close>
  is missing, else the answer of the \<^verbatim>\<open>(prefers-color-scheme: dark)\<close> query.
\<close>

definition system_theme_A :: "bool option \<Rightarrow> string" where
  "system_theme_A mm = (case mm of Some True \<Rightarrow> ''dark'' | _ \<Rightarrow> ''light'')"

definition getInitialTheme_A :: "bool \<Rightarrow> storage \<Rightarrow> bool option \<Rightarrow> js_error + string" where
  "getInitialTheme_A avail st mm =
     (if avail
      then (case getItem st THEME_A of
              Inl e \<Rightarrow> Inl e
            | Inr savedTheme \<Rightarrow>
                (case savedTheme of
                   Some v \<Rightarrow> if truthy savedTheme then Inr v else Inr (system_theme_A mm)
                 | None \<Rightarrow> Inr (system_theme_A mm)))
      else Inr (system_theme_A mm))"

definition getInitialTheme_B :: "storage \<Rightarrow> bool option \<Rightarrow> js_error + string" where
  "getInitialTheme_B st mm =
     (case getItem st THEME_B of
        Inl e \<Rightarrow> Inl e
      | Inr savedTheme \<Rightarrow>
          (case savedTheme of
             Some v \<Rightarrow> if truthy savedTheme then Inr v
                       else (case mm of None \<Rightarrow> Inl TypeError
                             | Some d \<Rightarrow> Inr (if d then ''dark'' else ''light''))
           | None \<Rightarrow> (case mm of None \<Rightarrow> Inl TypeError
                       | Some d \<Rightarrow> Inr (if d then ''dark'' else ''light''))))"

text \<open>
  \<^verbatim>\<open>applyTheme\<close>. The first variant skips a missing icon; the second assigns to
  \<^verbatim>\<open>icon.className\<close> unguarded, which throws when the button has no icon, after the
  field and the attribute are written. A function of the second variant returns the state
  reached together with the exception thrown, if any.
\<close>

definition applyTheme_A :: "string \<Rightarrow> theme_manager \<Rightarrow> theme_manager" where
  "applyTheme_A theme s =
     (let s1 = s\<lparr>currentTheme := theme, data_theme := Some theme\<rparr>;
          s2 = (case themeToggle s1 of
                  None \<Rightarrow> s1
                | Some tg \<Rightarrow>
                    s1\<lparr>themeToggle := Some
                      (tg\<lparr>icon_class :=
                            (case icon_class tg of
                               None \<Rightarrow> None
                             | Some c \<Rightarrow> Some (if theme = ''dark'' then ''fas fa-sun'' else ''fas fa-moon'')),
                          aria_pressed := Some (if theme = ''dark'' then ''true'' else ''false'')\<rparr>)\<rparr>)
      in s2\<lparr>body_transition := ''background-color 0.3s ease, color 0.3s ease'',
            transition_timers := transition_timers s2 + 1\<rparr>)"

definition applyTheme_B :: "string \<Rightarrow> theme_manager \<Rightarrow> theme_manager \<times> js_error option" where
  "applyTheme_B theme s =
     (let s1 = s\<lparr>currentTheme := theme, data_theme := Some theme\<rparr>;
          animate_transition = (\<lambda>s2. s2\<lparr>body_transition := ''background-color 0.3s ease, color 0.3s ease'',
                                          transition_timers := transition_timers s2 + 1\<rparr>)
      in case themeToggle s1 of
           None \<Rightarrow> (animate_transition s1, None)
         | Some tg \<Rightarrow>
             (case icon_class tg of
                None \<Rightarrow> (s1, Some TypeError)
              | Some c \<Rightarrow>
                  (animate_transition
                     (s1\<lparr>themeToggle := Some
                        (tg\<lparr>icon_class := Some (if theme = ''dark'' then ''fas fa-sun'' else ''fas fa-moon'')\<rparr>)\<rparr>),
                   None)))"

text \<open>The 300ms timer's callback.\<close>

definition clearTransition :: "theme_manager \<Rightarrow> theme_manager" where
  "clearTransition s = s\<lparr>body_transition := [], transition_timers := transition_timers s - 1\<rparr>"

text \<open>
  \<^verbatim>\<open>toggleTheme\<close>. In the first variant an exception of \<^verbatim>\<open>setItem\<close> is caught
  and logged; what was done before it stays done.
\<close>

definition toggleTheme_A :: "bool \<Rightarrow> theme_manager \<times> storage \<Rightarrow> theme_manager \<times> storage" where
  "toggleTheme_A avail = (\<lambda>(s, st).
     (let newTheme = (if currentTheme s = ''light'' then ''dark'' else ''light'');
          s' = applyTheme_A newTheme s
      in if avail
         then (case setItem st THEME_A newTheme of
                 Inl e \<Rightarrow> (s', st)
               | Inr st' \<Rightarrow> (s', st'))
         else (s', st)))"

definition toggleTheme_B ::
  "theme_manager \<times> storage \<Rightarrow> (theme_manager \<times> storage) \<times> js_error option" where
  "toggleTheme_B = (\<lambda>(s, st).
     (let newTheme = (if currentTheme s = ''light'' then ''dark'' else ''light'')
      in case applyTheme_B newTheme s of
           (s', Some e) \<Rightarrow> ((s', st), Some e)
         | (s', None) \<Rightarrow>
             (case setItem st THEME_B newTheme of
                Inl e \<Rightarrow> ((s', st), Some e)
              | Inr st' \<Rightarrow> ((s', st'), None))))"

text \<open>
  The listener for changes of the system colour scheme; \<open>matches\<close> is the event's
  \<^verbatim>\<open>e.matches\<close>. It is not inside a \<^verbatim>\<open>try\<close> block in either variant.
\<close>

definition systemThemeChanged_A ::
  "bool \<Rightarrow> bool \<Rightarrow> theme_manager \<times> storage \<Rightarrow> theme_manager \<times> js_error option" where
  "systemThemeChanged_A avail matches = (\<lambda>(s, st).
     (if \<not> avail then (applyTheme_A (if matches then ''dark'' else ''light'') s, None)
      else (case getItem st THEME_A of
              Inl e \<Rightarrow> (s, Some e)
            | Inr saved \<Rightarrow>
                if \<not> truthy saved
                then (applyTheme_A (if matches then ''dark'' else ''light'') s, None)
                else (s, None))))"

definition systemThemeChanged_B ::
  "bool \<Rightarrow> theme_manager \<times> storage \<Rightarrow> theme_manager \<times> js_error option" where
  "systemThemeChanged_B matches = (\<lambda>(s, st).
     (case getItem st THEME_B of
        Inl e \<Rightarrow> (s, Some e)
      | Inr saved \<Rightarrow>
          if \<not> truthy saved
          then applyTheme_B (if matches then ''dark'' else ''light'') s
          else (s, None)))"

text \<open>
  The constructor: \<^verbatim>\<open>currentTheme = getInitialTheme()\<close>, then \<^verbatim>\<open>init()\<close>, which
  applies the theme. \<open>doc\<close> is the manager before construction: the button found in the
  document and the document's state. An exception of \<^verbatim>\<open>getInitialTheme\<close> leaves the
  constructor; in the first variant \<^verbatim>\<open>init\<close> catches everything.
\<close>

definition new_ThemeManager_A ::
  "bool \<Rightarrow> storage \<Rightarrow> bool option \<Rightarrow> theme_manager \<Rightarrow> js_error + theme_manager" where
  "new_ThemeManager_A avail st mm doc =
     (case getInitialTheme_A avail st mm of
        Inl e \<Rightarrow> Inl e
      | Inr theme \<Rightarrow> Inr (applyTheme_A theme (doc\<lparr>currentTheme := theme\<rparr>)))"

definition new_ThemeManager_B ::
  "storage \<Rightarrow> bool option \<Rightarrow> theme_manager \<Rightarrow> js_error + theme_manager" where
  "new_ThemeManager_B st mm doc =
     (case getInitialTheme_B st mm of
        Inl e \<Rightarrow> Inl e
      | Inr theme \<Rightarrow>
          (case applyTheme_B theme (doc\<lparr>currentTheme := theme\<rparr>) of
             (s, Some e) \<Rightarrow> Inl e
           | (s, None) \<Rightarrow> (case mm of None \<Rightarrow> Inl TypeError | Some d \<Rightarrow> Inr s)))"

subsection \<open>Custom cursor (lines 312 to 396)\<close>

text \<open>
  The first variant's cursor. \<open>has_cursor\<close> and \<open>has_cursorDot\<close> say whether the two
  elements exist; the six coordinates and \<open>local_frame_id\<close> are the variables
  \<^verbatim>\<open>init\<close> declares with \<^verbatim>\<open>let\<close>, which the closures share;
  \<open>cursor_translate\<close> and \<open>dot_translate\<close> hold the two arguments of the last
  \<^verbatim>\<open>translate(...)\<close> written to each element's transform style;
  \<open>cursor_animationFrameId\<close> is the field \<^verbatim>\<open>this.animationFrameId\<close>. The hover
  handlers, which are not part of the frame loop, are left out.
\<close>

record custom_cursor =
  has_cursor :: bool
  has_cursorDot :: bool
  isVisible :: bool
  mouseX :: real
  mouseY :: real
  cursorX :: real
  cursorY :: real
  dotX :: real
  dotY :: real
  cursor_translate :: "(real \<times> real) option"
  dot_translate :: "(real \<times> real) option"
  local_frame_id :: "nat option"
  cursor_animationFrameId :: "nat option"
  cc_pending :: "nat list"
  cc_next_handle :: nat

definition updateCursor_A :: "custom_cursor \<Rightarrow> custom_cursor" where
  "updateCursor_A s =
     (let cx = cursorX s + (mouseX s - cursorX s) * 0.1;
          cy = cursorY s + (mouseY s - cursorY s) * 0.1;
          dx = dotX s + (mouseX s - dotX s) * 0.15;
          dy = dotY s + (mouseY s - dotY s) * 0.15;
          s1 = s\<lparr>cursorX := cx, cursorY := cy, dotX := dx, dotY := dy\<rparr>;
          s2 = (if has_cursor s1 then s1\<lparr>cursor_translate := Some (cx - 20, cy - 20)\<rparr> else s1);
          s3 = (if has_cursorDot s2 then s2\<lparr>dot_translate := Some (dx - 4, dy - 4)\<rparr> else s2)
      in s3\<lparr>local_frame_id := Some (cc_next_handle s3),
            cc_pending := cc_pending s3 @ [cc_next_handle s3],
            cc_next_handle := cc_next_handle s3 + 1\<rparr>)"

definition mousemove :: "real \<Rightarrow> real \<Rightarrow> custom_cursor \<Rightarrow> custom_cursor" where
  "mousemove clientX clientY s = s\<lparr>mouseX := clientX, mouseY := clientY\<rparr>"

text \<open>
  \<^verbatim>\<open>init\<close>: the loop is started by a direct call of \<^verbatim>\<open>updateCursor\<close>, and the
  handle that call obtained is copied into the field once, under the comment
  \<^verbatim>\<open>// Store animation ID for cleanup\<close>.
\<close>

definition cursor_init_A :: "custom_cursor \<Rightarrow> custom_cursor" where
  "cursor_init_A s =
     (let s1 = updateCursor_A
                 (s\<lparr>mouseX := 0, mouseY := 0, cursorX := 0, cursorY := 0, dotX := 0, dotY := 0,
                    local_frame_id := None\<rparr>)
      in s1\<lparr>cursor_animationFrameId := local_frame_id s1\<rparr>)"

text \<open>
  The constructor; \<open>narrow\<close> is the answer of the \<^verbatim>\<open>(max-width: 768px)\<close> query and
  \<open>h\<close> the browser's next frame handle.
\<close>

definition new_CustomCursor_A :: "bool \<Rightarrow> bool \<Rightarrow> bool \<Rightarrow> nat \<Rightarrow> custom_cursor" where
  "new_CustomCursor_A cursor_found dot_found narrow h =
     (let s = \<lparr>has_cursor = cursor_found, has_cursorDot = dot_found, isVisible = \<not> narrow,
                mouseX = 0, mouseY = 0, cursorX = 0, cursorY = 0, dotX = 0, dotY = 0,
                cursor_translate = None, dot_translate = None, local_frame_id = None,
                cursor_animationFrameId = None, cc_pending = [], cc_next_handle = h\<rparr>
      in if isVisible s \<and> has_cursor s \<and> has_cursorDot s then cursor_init_A s else s)"

definition cursor_destroy_A :: "custom_cursor \<Rightarrow> custom_cursor" where
  "cursor_destroy_A s =
     (case cursor_animationFrameId s of
        None \<Rightarrow> s
      | Some h \<Rightarrow> if h \<noteq> 0 then s\<lparr>cc_pending := removeAll h (cc_pending s)\<rparr> else s)"

definition cursor_frame_tick_A :: "custom_cursor \<Rightarrow> custom_cursor" where
  "cursor_frame_tick_A s = fold (\<lambda>_. updateCursor_A) (cc_pending s) (s\<lparr>cc_pending := []\<rparr>)"

subsection \<open>Scroll animation manager (lines 624 to 713 and 1873 to 1928)\<close>

text \<open>
  Of the reveal observer only the field \<^verbatim>\<open>observer\<close> matters to \<^verbatim>\<open>destroy\<close>:
  \<open>None\<close> where the browser has no \<^verbatim>\<open>IntersectionObserver\<close>, else the elements
  under observation. \<^verbatim>\<open>disconnect()\<close> stops observing all of them. The manager
  requests no animation frame.
\<close>

record scroll_animation_manager =
  observer :: "nat list option"

definition reveal_destroy :: "scroll_animation_manager \<Rightarrow> scroll_animation_manager" where
  "reveal_destroy s = (case observer s of None \<Rightarrow> s | Some els \<Rightarrow> s\<lparr>observer := Some []\<rparr>)"

subsection \<open>Navigation and loading screen (lines 31 to 33, 125 to 166, 406 to 521, 1379 to 1431)\<close>

















subsection \<open>Video manager (lines 854 to 962 and 2022 to 2092)\<close>

text \<open>
  \<^verbatim>\<open>String.prototype.includes\<close>, and \<^verbatim>\<open>String.prototype.replace\<close> with a string
  pattern, which replaces the first occurrence only.
\<close>

fun string_includes :: "string \<Rightarrow> string \<Rightarrow> bool" where
  "string_includes [] pat = (pat = [])"
| "string_includes (c # cs) pat = (prefix pat (c # cs) \<or> string_includes cs pat)"

fun replace_first :: "string \<Rightarrow> string \<Rightarrow> string \<Rightarrow> string" where
  "replace_first [] pat rep = (if pat = [] then rep else [])"
| "replace_first (c # cs) pat rep =
     (if prefix pat (c # cs) then rep @ drop (length pat) (c # cs)
      else c # replace_first cs pat rep)"

text \<open>
  A card: its \<^verbatim>\<open>iframe\<close> (\<open>None\<close> when the card has none) with the \<^verbatim>\<open>src\<close>
  attribute (\<open>None\<close> when absent), and whether it has a \<^verbatim>\<open>.video-overlay\<close>.
\<close>

datatype iframe_el = Iframe (src: "string option")

record video_card =
  iframe :: "iframe_el option"
  overlay :: bool

definition playVideo :: "iframe_el \<Rightarrow> iframe_el" where
  "playVideo f =
     (case src f of
        None \<Rightarrow> f
      | Some u \<Rightarrow> if truthy (src f) \<and> \<not> string_includes u ''autoplay=1''
                  then Iframe (Some (u @ ''&autoplay=1'')) else f)"

text \<open>The body of \<^verbatim>\<open>videoCards.forEach\<close> in \<^verbatim>\<open>pauseAllVideos\<close>.\<close>

definition pause_card :: "video_card \<Rightarrow> video_card" where
  "pause_card c =
     (case iframe c of
        None \<Rightarrow> c
      | Some f \<Rightarrow>
          (case src f of
             None \<Rightarrow> c
           | Some u \<Rightarrow> if truthy (src f) \<and> string_includes u ''autoplay=1''
                       then c\<lparr>iframe := Some (Iframe (Some (replace_first u ''&autoplay=1'' [])))\<rparr>
                       else c))"

definition pauseAllVideos :: "video_card list \<Rightarrow> video_card list" where
  "pauseAllVideos cards = map pause_card cards"

text \<open>
  \<^verbatim>\<open>setupLazyLoading\<close>, as far as it can fail. \<open>has_observer\<close> says whether the
  browser has \<^verbatim>\<open>IntersectionObserver\<close>. The first variant tests for it and sits
  inside \<^verbatim>\<open>try/catch\<close>: it never throws. The second variant evaluates
  \<^verbatim>\<open>new IntersectionObserver(...)\<close> for every iframe whose \<^verbatim>\<open>src\<close> is truthy and
  lacks \<^verbatim>\<open>autoplay=1\<close>, which throws where the browser has none. The observer
  itself, which only adds a preconnect hint to the document head, is left out.
\<close>

definition setupLazyLoading_B :: "bool \<Rightarrow> iframe_el \<Rightarrow> js_error option" where
  "setupLazyLoading_B has_observer f =
     (case src f of
        None \<Rightarrow> None
      | Some u \<Rightarrow> if truthy (src f) \<and> \<not> string_includes u ''autoplay=1''
                  then (if has_observer then None else Some ReferenceError)
                  else None)"

text \<open>
  \<^verbatim>\<open>setupVideoCard\<close>: whether the card got its two listeners (the overlay's
  \<^verbatim>\<open>click\<close> and the card's \<^verbatim>\<open>mouseenter\<close>), and in the second variant the
  exception thrown, if any. A card without an iframe or without an overlay gets none; in
  the second variant \<^verbatim>\<open>setupLazyLoading\<close> runs before the listeners are added.
\<close>

definition setupVideoCard_A :: "video_card \<Rightarrow> bool" where
  "setupVideoCard_A c = (iframe c \<noteq> None \<and> overlay c)"

definition setupVideoCard_B :: "bool \<Rightarrow> video_card \<Rightarrow> bool \<times> js_error option" where
  "setupVideoCard_B has_observer c =
     (case iframe c of
        None \<Rightarrow> (False, None)
      | Some f \<Rightarrow>
          if \<not> overlay c then (False, None)
          else (case setupLazyLoading_B has_observer f of
                  Some e \<Rightarrow> (False, Some e)
                | None \<Rightarrow> (True, None)))"

text \<open>
  The manager: the cards, and for each card whether it has its listeners.
  \<^verbatim>\<open>init\<close> runs \<^verbatim>\<open>setupVideoCard\<close> over the cards in order; in the second
  variant an exception ends the loop, so the card that threw and every later card stay
  without listeners, and the exception leaves the constructor.
\<close>

record video_manager =
  videoCards :: "video_card list"
  listening :: "bool list"

fun init_cards_B :: "bool \<Rightarrow> video_card list \<Rightarrow> bool list \<times> js_error option" where
  "init_cards_B has_observer [] = ([], None)"
| "init_cards_B has_observer (c # cs) =
     (case setupVideoCard_B has_observer c of
        (b, Some e) \<Rightarrow> (b # map (\<lambda>_. False) cs, Some e)
      | (b, None) \<Rightarrow>
          (case init_cards_B has_observer cs of (bs, e) \<Rightarrow> (b # bs, e)))"

definition new_VideoManager_A :: "video_card list \<Rightarrow> video_manager" where
  "new_VideoManager_A cards = \<lparr>videoCards = cards, listening = map setupVideoCard_A cards\<rparr>"

definition new_VideoManager_B :: "bool \<Rightarrow> video_card list \<Rightarrow> video_manager \<times> js_error option" where
  "new_VideoManager_B has_observer cards =
     (case init_cards_B has_observer cards of
        (bs, e) \<Rightarrow> (\<lparr>videoCards = cards, listening = bs\<rparr>, e))"

text \<open>
  The two events on card number \<open>i\<close>. A card without listeners ignores them. The
  overlay's click plays the card's iframe; the first variant's \<^verbatim>\<open>mouseenter\<close>
  handler has an empty body under the comment
  \<^verbatim>\<open>// Pause other videos when hovering\<close>, the second variant's calls
  \<^verbatim>\<open>pauseAllVideos\<close>.
\<close>

definition handlers_installed :: "video_manager \<Rightarrow> nat \<Rightarrow> bool" where
  "handlers_installed vm i =
     (i < length (videoCards vm) \<and> i < length (listening vm) \<and> listening vm ! i)"

definition overlay_click :: "nat \<Rightarrow> video_manager \<Rightarrow> video_manager" where
  "overlay_click i vm =
     (if handlers_installed vm i
      then (case iframe (videoCards vm ! i) of
              None \<Rightarrow> vm
            | Some f \<Rightarrow>
                vm\<lparr>videoCards := (videoCards vm)[i := (videoCards vm ! i)\<lparr>iframe := Some (playVideo f)\<rparr>]\<rparr>)
      else vm)"

definition mouseenter_A :: "nat \<Rightarrow> video_manager \<Rightarrow> video_manager" where
  "mouseenter_A i vm = vm"

definition mouseenter_B :: "nat \<Rightarrow> video_manager \<Rightarrow> video_manager" where
  "mouseenter_B i vm =
     (if handlers_installed vm i then vm\<lparr>videoCards := pauseAllVideos (videoCards vm)\<rparr> else vm)"

text \<open>The embed URL of a card: the \<^verbatim>\<open>src\<close> of its iframe, if it has both.\<close>

definition embed_url :: "video_card \<Rightarrow> string option" where
  "embed_url c = (case iframe c of None \<Rightarrow> None | Some f \<Rightarrow> src f)"

text \<open>The number of places in a string at which a pattern occurs.\<close>

fun occurrences :: "string \<Rightarrow> string \<Rightarrow> nat" where
  "occurrences [] pat = (if pat = [] then 1 else 0)"
| "occurrences (c # cs) pat = (if prefix pat (c # cs) then 1 else 0) + occurrences cs pat"

subsection \<open>Predicates used in the proofs\<close>

text \<open>
  One axis of a particle: the speed is at most half a percent per frame, and the
  coordinate is either inside the container or outside it by no more than the last
  step, with the velocity already pointing back.
\<close>

definition axis_ok :: "real \<Rightarrow> real \<Rightarrow> bool" where
  "axis_ok c v =
     (\<bar>v\<bar> \<le> 1/2 \<and>
      ((0 \<le> c \<and> c \<le> 100) \<or> (c < 0 \<and> 0 < v \<and> - v \<le> c) \<or> (100 < c \<and> v < 0 \<and> c \<le> 100 - v)))"

definition particle_ok :: "particle \<Rightarrow> bool" where
  "particle_ok p = (axis_ok (pos_x p) (vx p) \<and> axis_ok (pos_y p) (vy p))"

section \<open>Properties\<close>

subsection \<open>Particle system\<close>

lemma particles_createParticles_loop:
  "length (particles (createParticles_loop n rnd s)) = length (particles s) + n"
  by (induction n rnd s rule: createParticles_loop.induct) simp_all

lemma particles_animate_A:
  "particles (animate_A s) = (if isActive s then map advance (particles s) else particles s)"
  by (simp add: animate_A_def ps_request_frame_def)

lemma particles_animate_B:
  "particles (animate_B s) = (if isActive s then map advance (particles s) else particles s)"
  by (simp add: animate_B_def ps_request_frame_def)

lemma length_particles_init_A:
  "768 < innerWidth env \<Longrightarrow> \<not> prefersReducedMotion env \<Longrightarrow>
     length (particles (init_A env s)) = length (particles s) + nat (min 50 (innerWidth env div 30))"
  by (simp add: init_A_def particles_animate_A createParticles_def particleCount_def
      particles_createParticles_loop)

lemma length_particles_init_B:
  "768 < innerWidth env \<Longrightarrow> \<not> prefersReducedMotion env \<Longrightarrow>
     length (particles (init_B env s)) = length (particles s) + nat (min 50 (innerWidth env div 30))"
  by (simp add: init_B_def particles_animate_B createParticles_def particleCount_def
      particles_createParticles_loop)

text \<open>
  C9. On a viewport wider than 768px with reduced motion off, \<^verbatim>\<open>init\<close> on a system
  whose container exists adds exactly \<open>min(50, floor(innerWidth / 30))\<close> particles to
  the list, in both variants, so a newly constructed particle system holds exactly that
  many.
\<close>

theorem init_creates_min_50_width_div_30:
  assumes "768 < innerWidth env" and "\<not> prefersReducedMotion env" and "container s"
  shows "length (particles (init_A env s)) = length (particles s) + nat (min 50 (innerWidth env div 30))
       \<and> length (particles (init_B env s)) = length (particles s) + nat (min 50 (innerWidth env div 30))
       \<and> int (length (particles (new_ParticleSystem_A env True h))) = min 50 (innerWidth env div 30)
       \<and> int (length (particles (new_ParticleSystem_B env True h))) = min 50 (innerWidth env div 30)"
proof -
  have "0 \<le> min 50 (innerWidth env div 30)"
    using assms(1) by simp
  then show ?thesis
    using length_particles_init_A [OF assms(1,2)] length_particles_init_B [OF assms(1,2)]
    by (simp add: new_ParticleSystem_A_def new_ParticleSystem_B_def fresh_particle_system_def)
qed

text \<open>C9 at a viewport 1200px wide, reduced motion off: 40 particles.\<close>

theorem init_creates_40_at_width_1200:
  "768 < innerWidth \<lparr>innerWidth = 1200, prefersReducedMotion = False, math_random = (\<lambda>_. 1/2)\<rparr>
   \<and> container (fresh_particle_system True 1)
   \<and> length (particles (init_A
        \<lparr>innerWidth = 1200, prefersReducedMotion = False, math_random = (\<lambda>_. 1/2)\<rparr>
        (fresh_particle_system True 1))) = 40
   \<and> length (particles (new_ParticleSystem_A
        \<lparr>innerWidth = 1200, prefersReducedMotion = False, math_random = (\<lambda>_. 1/2)\<rparr> True 1)) = 40
   \<and> length (particles (new_ParticleSystem_B
        \<lparr>innerWidth = 1200, prefersReducedMotion = False, math_random = (\<lambda>_. 1/2)\<rparr> True 1)) = 40"
  using init_creates_min_50_width_div_30
    [of "\<lparr>innerWidth = 1200, prefersReducedMotion = False, math_random = (\<lambda>_. 1/2)\<rparr>"
        "fresh_particle_system True 1" 1]
  by (simp add: fresh_particle_system_def)

lemma axis_ok_step:
  "axis_ok c v \<Longrightarrow> axis_ok (c + v) (if c + v < 0 \<or> c + v > 100 then v * (-1) else v)"
  unfolding axis_ok_def by (auto simp: abs_if split: if_splits)

lemma axis_ok_bounds: "axis_ok c v \<Longrightarrow> - 1/2 \<le> c \<and> c \<le> 100 + 1/2"
  unfolding axis_ok_def by (auto simp: abs_if split: if_splits)

lemma axis_ok_back:
  "axis_ok c v \<Longrightarrow> c < 0 \<or> 100 < c \<Longrightarrow> 0 \<le> c + v \<and> c + v \<le> 100"
  unfolding axis_ok_def by (auto simp: abs_if split: if_splits)

lemma axis_ok_random:
  assumes "0 \<le> r" "r \<le> 1" "0 \<le> q" "q \<le> 1"
  shows "axis_ok (getRandomFloat r 0 100) (getRandomFloat q (- (1/2)) (1/2))"
  using assms unfolding axis_ok_def getRandomFloat_def by (auto simp: abs_if)

lemma particle_ok_advance: "particle_ok p \<Longrightarrow> particle_ok (advance p)"
  using axis_ok_step [of "pos_x p" "vx p"] axis_ok_step [of "pos_y p" "vy p"]
  by (simp add: particle_ok_def advance_def Let_def)

lemma particle_ok_createParticle:
  "\<forall>k. 0 \<le> rnd k \<and> rnd k < 1 \<Longrightarrow> particle_ok (createParticle rnd k)"
  by (simp add: particle_ok_def createParticle_def Let_def axis_ok_random less_imp_le
      del: One_nat_def)

lemma ok_createParticles_loop:
  "\<forall>k. 0 \<le> rnd k \<and> rnd k < 1 \<Longrightarrow> list_all particle_ok (particles s) \<Longrightarrow>
     list_all particle_ok (particles (createParticles_loop n rnd s))"
  by (induction n rnd s rule: createParticles_loop.induct)
     (simp_all add: particle_ok_createParticle)

lemma ok_map_advance: "list_all particle_ok ps \<Longrightarrow> list_all particle_ok (map advance ps)"
  by (induction ps) (simp_all add: particle_ok_advance)

lemma ok_animate_A:
  "list_all particle_ok (particles s) \<Longrightarrow> list_all particle_ok (particles (animate_A s))"
  by (simp add: particles_animate_A ok_map_advance)

lemma ok_animate_B:
  "list_all particle_ok (particles s) \<Longrightarrow> list_all particle_ok (particles (animate_B s))"
  by (simp add: particles_animate_B ok_map_advance)

lemma ok_fold_animate_A:
  "list_all particle_ok (particles s) \<Longrightarrow>
     list_all particle_ok (particles (fold (\<lambda>_. animate_A) hs s))"
  by (induction hs arbitrary: s) (simp_all add: ok_animate_A)

lemma ok_fold_animate_B:
  "list_all particle_ok (particles s) \<Longrightarrow>
     list_all particle_ok (particles (fold (\<lambda>_. animate_B) hs s))"
  by (induction hs arbitrary: s) (simp_all add: ok_animate_B)

lemma ok_ps_step_A:
  "list_all particle_ok (particles s) \<Longrightarrow> list_all particle_ok (particles (ps_step_A e s))"
  by (cases e) (simp_all add: frame_tick_A_def pauseAnimations_def resumeAnimations_A_def
      ok_fold_animate_A ok_animate_A)

lemma ok_ps_step_B:
  "list_all particle_ok (particles s) \<Longrightarrow> list_all particle_ok (particles (ps_step_B e s))"
  by (cases e) (simp_all add: frame_tick_B_def pauseAnimations_def resumeAnimations_B_def
      ok_fold_animate_B ok_animate_B)

lemma ok_run_A:
  "list_all particle_ok (particles s) \<Longrightarrow> list_all particle_ok (particles (fold ps_step_A evs s))"
  by (induction evs arbitrary: s) (simp_all add: ok_ps_step_A)

lemma ok_run_B:
  "list_all particle_ok (particles s) \<Longrightarrow> list_all particle_ok (particles (fold ps_step_B evs s))"
  by (induction evs arbitrary: s) (simp_all add: ok_ps_step_B)

lemma ok_new_A:
  "\<forall>k. 0 \<le> math_random env k \<and> math_random env k < 1 \<Longrightarrow>
     list_all particle_ok (particles (new_ParticleSystem_A env c h))"
  by (simp add: new_ParticleSystem_A_def init_A_def fresh_particle_system_def Let_def
      createParticles_def ok_animate_A ok_createParticles_loop)

lemma ok_new_B:
  "\<forall>k. 0 \<le> math_random env k \<and> math_random env k < 1 \<Longrightarrow>
     list_all particle_ok (particles (new_ParticleSystem_B env c h))"
  by (simp add: new_ParticleSystem_B_def init_B_def fresh_particle_system_def Let_def
      createParticles_def ok_animate_B ok_createParticles_loop)

lemma first_particle_after_resume:
  "particles (fold ps_step_A [PageVisible]
      (new_ParticleSystem_A
         \<lparr>innerWidth = 1200, prefersReducedMotion = False, math_random = (\<lambda>_. 255/256)\<rparr>
         True 1)) \<noteq> []
   \<and> pos_x (hd (particles (fold ps_step_A [PageVisible]
      (new_ParticleSystem_A
         \<lparr>innerWidth = 1200, prefersReducedMotion = False, math_random = (\<lambda>_. 255/256)\<rparr>
         True 1)))) = 25627/256
   \<and> vx (hd (particles (fold ps_step_A [PageVisible]
      (new_ParticleSystem_A
         \<lparr>innerWidth = 1200, prefersReducedMotion = False, math_random = (\<lambda>_. 255/256)\<rparr>
         True 1)))) = - (127/256)"
  by (simp add: new_ParticleSystem_A_def init_A_def fresh_particle_system_def Let_def
      createParticles_def particleCount_def resumeAnimations_A_def animate_A_def
      ps_request_frame_def createParticle_def getRandomFloat_def advance_def numeral_eq_Suc)

text \<open>
  C1 as stated fails: a particle created near the right edge leaves \<open>[0,100]\<close> on the
  first frame that advances it. With \<^verbatim>\<open>Math.random()\<close> returning 255/256 on a
  viewport 1200px wide, the first particle starts at 99.609375 with velocity 0.49609375
  and stands at 100.10546875 after the frame that runs when the page becomes visible.
\<close>

theorem particle_leaves_container:
  "100 < pos_x (hd (particles (fold ps_step_A [PageVisible]
      (new_ParticleSystem_A
         \<lparr>innerWidth = 1200, prefersReducedMotion = False, math_random = (\<lambda>_. 255/256)\<rparr>
         True 1))))"
  using first_particle_after_resume by simp

text \<open>
  C1, amended. Let \<^verbatim>\<open>Math.random()\<close> return values in \<open>[0,1)\<close>. In every state
  the particle system reaches from its construction through frames, page-hidden and
  page-visible events, in either variant, every particle is within \<open>[-0.5, 100.5]\<close> on
  each axis; and a coordinate that is outside \<open>[0,100]\<close> is back inside after the
  particle's next advance.
\<close>

theorem particle_positions_within_one_step:
  assumes rnd: "\<forall>k. 0 \<le> math_random env k \<and> math_random env k < 1"
    and mem: "p \<in> set (particles (fold ps_step_A evs (new_ParticleSystem_A env c h)))
            \<or> p \<in> set (particles (fold ps_step_B evs (new_ParticleSystem_B env c h)))"
  shows "- 1/2 \<le> pos_x p \<and> pos_x p \<le> 100 + 1/2 \<and> - 1/2 \<le> pos_y p \<and> pos_y p \<le> 100 + 1/2
       \<and> (if pos_x p < 0 \<or> 100 < pos_x p
           then 0 \<le> pos_x (advance p) \<and> pos_x (advance p) \<le> 100 else True)
       \<and> (if pos_y p < 0 \<or> 100 < pos_y p
           then 0 \<le> pos_y (advance p) \<and> pos_y (advance p) \<le> 100 else True)"
proof -
  have "particle_ok p"
    using mem ok_run_A [OF ok_new_A [OF rnd]] ok_run_B [OF ok_new_B [OF rnd]]
    by (auto simp: list_all_iff)
  then have ax: "axis_ok (pos_x p) (vx p)" and ay: "axis_ok (pos_y p) (vy p)"
    by (simp_all add: particle_ok_def)
  show ?thesis
    using axis_ok_bounds [OF ax] axis_ok_bounds [OF ay] axis_ok_back [OF ax] axis_ok_back [OF ay]
    by (simp add: advance_def Let_def)
qed

text \<open>
  The amended C1 at the input of the counterexample: the first particle, at 100.10546875
  after its first advance, is within 100.5 and back inside \<open>[0,100]\<close> one advance later.
\<close>

theorem particle_positions_witness:
  "(\<forall>k. 0 \<le> (255/256 :: real) \<and> (255/256 :: real) < 1)
   \<and> 100 < pos_x (hd (particles (fold ps_step_A [PageVisible] (new_ParticleSystem_A
         \<lparr>innerWidth = 1200, prefersReducedMotion = False, math_random = (\<lambda>_. 255/256)\<rparr> True 1))))
   \<and> pos_x (hd (particles (fold ps_step_A [PageVisible] (new_ParticleSystem_A
         \<lparr>innerWidth = 1200, prefersReducedMotion = False, math_random = (\<lambda>_. 255/256)\<rparr> True 1))))
       \<le> 100 + 1/2
   \<and> 0 \<le> pos_x (advance (hd (particles (fold ps_step_A [PageVisible] (new_ParticleSystem_A
         \<lparr>innerWidth = 1200, prefersReducedMotion = False, math_random = (\<lambda>_. 255/256)\<rparr> True 1)))))
   \<and> pos_x (advance (hd (particles (fold ps_step_A [PageVisible] (new_ParticleSystem_A
         \<lparr>innerWidth = 1200, prefersReducedMotion = False, math_random = (\<lambda>_. 255/256)\<rparr> True 1)))))
       \<le> 100"
proof -
  let ?env = "\<lparr>innerWidth = 1200, prefersReducedMotion = False, math_random = (\<lambda>_. 255/256 :: real)\<rparr>"
  let ?s = "fold ps_step_A [PageVisible] (new_ParticleSystem_A ?env True 1)"
  have rnd: "\<forall>k. 0 \<le> math_random ?env k \<and> math_random ?env k < 1"
    by simp
  have mem: "hd (particles ?s) \<in> set (particles ?s)"
    using first_particle_after_resume by (intro hd_in_set) simp
  have out: "100 < pos_x (hd (particles ?s))"
    using first_particle_after_resume by simp
  show ?thesis
    using particle_positions_within_one_step [OF rnd disjI1, OF mem] out by simp
qed

subsection \<open>Theme manager\<close>

lemma getInitialTheme_A_stored:
  "avail \<Longrightarrow> getItem st THEME_A = Inr (Some v) \<Longrightarrow> v \<noteq> [] \<Longrightarrow>
     getInitialTheme_A avail st mm = Inr v"
  by (simp add: getInitialTheme_A_def)

lemma getInitialTheme_B_stored:
  "getItem st THEME_B = Inr (Some v) \<Longrightarrow> v \<noteq> [] \<Longrightarrow> getInitialTheme_B st mm = Inr v"
  by (simp add: getInitialTheme_B_def)

lemma data_theme_applyTheme_A: "data_theme (applyTheme_A v s) = Some v"
  by (simp add: applyTheme_A_def Let_def split: option.splits)

lemma currentTheme_applyTheme_A: "currentTheme (applyTheme_A v s) = v"
  by (simp add: applyTheme_A_def Let_def split: option.splits)

lemma data_theme_applyTheme_B: "data_theme (fst (applyTheme_B v s)) = Some v"
  by (simp add: applyTheme_B_def Let_def split: option.splits)

lemma currentTheme_applyTheme_B: "currentTheme (fst (applyTheme_B v s)) = v"
  by (simp add: applyTheme_B_def Let_def split: option.splits)

lemma fst_toggleTheme_A:
  "fst (toggleTheme_A avail (s, st)) =
     applyTheme_A (if currentTheme s = ''light'' then ''dark'' else ''light'') s"
  by (simp add: toggleTheme_A_def Let_def split: sum.splits)

lemma fst_toggleTheme_B:
  "fst (fst (toggleTheme_B (s, st))) =
     fst (applyTheme_B (if currentTheme s = ''light'' then ''dark'' else ''light'') s)"
  by (simp add: toggleTheme_B_def Let_def split: sum.splits prod.splits option.splits)

lemma new_ThemeManager_B_stored:
  assumes "getItem st THEME_B = Inr (Some v)" and "v \<noteq> []"
    and "case themeToggle doc of None \<Rightarrow> True | Some tg \<Rightarrow> icon_class tg \<noteq> None"
  shows "\<exists>s. new_ThemeManager_B st (Some d) doc = Inr s \<and> currentTheme s = v \<and> data_theme s = Some v"
  using assms
  by (auto simp: new_ThemeManager_B_def getInitialTheme_B_stored applyTheme_B_def Let_def
      split: option.splits)

lemma new_ThemeManager_A_unavailable:
  "\<exists>s. new_ThemeManager_A False st mm doc = Inr s \<and> currentTheme s = system_theme_A mm
       \<and> data_theme s = Some (system_theme_A mm)"
  by (simp add: new_ThemeManager_A_def getInitialTheme_A_def data_theme_applyTheme_A
      currentTheme_applyTheme_A)

text \<open>
  C4 as stated fails in the first variant. The availability test at load writes a test
  item; on a storage whose quota is full the write throws, the constant
  \<^verbatim>\<open>isLocalStorageAvailable\<close> is false, and \<^verbatim>\<open>getInitialTheme()\<close> does not read
  the storage. With \<open>dark\<close> stored and the system preferring light it returns
  \<open>light\<close>.
\<close>

theorem stored_theme_skipped_when_quota_full:
  "getItem \<lparr>items = [THEME_A \<mapsto> ''dark''], blocked = False, quota_full = True\<rparr> THEME_A
     = Inr (Some ''dark'')
   \<and> getInitialTheme_A
       (isLocalStorageAvailable \<lparr>items = [THEME_A \<mapsto> ''dark''], blocked = False, quota_full = True\<rparr>)
       \<lparr>items = [THEME_A \<mapsto> ''dark''], blocked = False, quota_full = True\<rparr> (Some False)
     = Inr ''light''"
  by (simp add: getItem_def isLocalStorageAvailable_def setItem_def getInitialTheme_A_def
      system_theme_A_def)

text \<open>
  C4, amended. Let \<open>v\<close> be \<open>light\<close> or \<open>dark\<close>. In the first variant, when the
  storage passed the availability test at load (\<open>avail\<close>) and returns \<open>v\<close> for the
  theme key, \<^verbatim>\<open>getInitialTheme()\<close> returns \<open>v\<close>, whatever the colour-scheme query
  reports or whether it exists at all; when the storage failed the test, the storage is
  not read and the result is \<open>dark\<close> if the query matches and \<open>light\<close> otherwise. In
  the second variant, which has no such test, \<^verbatim>\<open>getInitialTheme()\<close> returns \<open>v\<close>
  whenever the storage returns \<open>v\<close>.
\<close>

theorem getInitialTheme_returns_stored_theme:
  assumes "v = ''light'' \<or> v = ''dark''"
  shows "(avail \<and> getItem st THEME_A = Inr (Some v) \<longrightarrow> (\<forall>mm. getInitialTheme_A avail st mm = Inr v))
       \<and> (getItem st THEME_B = Inr (Some v) \<longrightarrow> (\<forall>mm. getInitialTheme_B st mm = Inr v))
       \<and> (\<forall>mm. getInitialTheme_A False st mm = Inr (if mm = Some True then ''dark'' else ''light''))"
proof -
  from assms have "v \<noteq> []"
    by auto
  moreover have "\<forall>mm. getInitialTheme_A False st mm = Inr (if mm = Some True then ''dark'' else ''light'')"
    by (auto simp: getInitialTheme_A_def system_theme_A_def split: option.splits bool.splits)
  ultimately show ?thesis
    by (simp add: getInitialTheme_A_stored getInitialTheme_B_stored)
qed

text \<open>
  The amended C4 with \<open>dark\<close> stored under both keys of a working storage while the
  system prefers light.
\<close>

theorem getInitialTheme_returns_stored_theme_witness:
  "isLocalStorageAvailable
      \<lparr>items = [THEME_A \<mapsto> ''dark'', THEME_B \<mapsto> ''dark''], blocked = False, quota_full = False\<rparr>
   \<and> getItem \<lparr>items = [THEME_A \<mapsto> ''dark'', THEME_B \<mapsto> ''dark''], blocked = False, quota_full = False\<rparr>
        THEME_A = Inr (Some ''dark'')
   \<and> getItem \<lparr>items = [THEME_A \<mapsto> ''dark'', THEME_B \<mapsto> ''dark''], blocked = False, quota_full = False\<rparr>
        THEME_B = Inr (Some ''dark'')
   \<and> getInitialTheme_A
        (isLocalStorageAvailable
           \<lparr>items = [THEME_A \<mapsto> ''dark'', THEME_B \<mapsto> ''dark''], blocked = False, quota_full = False\<rparr>)
        \<lparr>items = [THEME_A \<mapsto> ''dark'', THEME_B \<mapsto> ''dark''], blocked = False, quota_full = False\<rparr>
        (Some False) = Inr ''dark''
   \<and> getInitialTheme_B
        \<lparr>items = [THEME_A \<mapsto> ''dark'', THEME_B \<mapsto> ''dark''], blocked = False, quota_full = False\<rparr>
        (Some False) = Inr ''dark''"
proof -
  let ?st = "\<lparr>items = [THEME_A \<mapsto> ''dark'', THEME_B \<mapsto> ''dark''], blocked = False, quota_full = False\<rparr>"
  have a: "getItem ?st THEME_A = Inr (Some ''dark'')"
    and b: "getItem ?st THEME_B = Inr (Some ''dark'')"
    by (simp_all add: getItem_def THEME_A_def THEME_B_def)
  have p: "isLocalStorageAvailable ?st"
    by (simp add: isLocalStorageAvailable_def setItem_def removeItem_def)
  show ?thesis
    using getInitialTheme_returns_stored_theme [of "''dark''" "isLocalStorageAvailable ?st" ?st] a b p
    by simp
qed

text \<open>
  C10 as stated fails in the first variant, for the same reason: on a storage whose quota
  is full the availability test fails and the stored string is not read. With \<open>sepia\<close>
  stored and the system preferring dark, \<^verbatim>\<open>getInitialTheme()\<close> returns \<open>dark\<close> and
  the constructed manager sets the root's \<^verbatim>\<open>data-theme\<close> to \<open>dark\<close>.
\<close>

theorem stored_string_skipped_when_quota_full:
  "getItem \<lparr>items = [THEME_A \<mapsto> ''sepia''], blocked = False, quota_full = True\<rparr> THEME_A
     = Inr (Some ''sepia'')
   \<and> getInitialTheme_A
       (isLocalStorageAvailable \<lparr>items = [THEME_A \<mapsto> ''sepia''], blocked = False, quota_full = True\<rparr>)
       \<lparr>items = [THEME_A \<mapsto> ''sepia''], blocked = False, quota_full = True\<rparr> (Some True)
     = Inr ''dark''
   \<and> (case new_ThemeManager_A
       (isLocalStorageAvailable \<lparr>items = [THEME_A \<mapsto> ''sepia''], blocked = False, quota_full = True\<rparr>)
       \<lparr>items = [THEME_A \<mapsto> ''sepia''], blocked = False, quota_full = True\<rparr> (Some True)
       \<lparr>themeToggle = None, currentTheme = [], data_theme = None, body_transition = [],
         transition_timers = 0\<rparr> of
         Inl e \<Rightarrow> False
       | Inr s \<Rightarrow> data_theme s = Some ''dark'')"
  by (simp add: getItem_def isLocalStorageAvailable_def setItem_def getInitialTheme_A_def
      system_theme_A_def new_ThemeManager_A_def applyTheme_A_def Let_def)

text \<open>
  C10, amended. The stored value is not validated. Let \<open>v\<close> be any non-empty string that
  the storage returns for the theme key. In the first variant, when the storage passed the
  availability test at load (\<open>avail\<close>), \<^verbatim>\<open>getInitialTheme()\<close> returns \<open>v\<close> itself,
  without regard to the colour-scheme query, and the manager constructed carries \<open>v\<close> in
  \<^verbatim>\<open>currentTheme\<close> and in the root's \<^verbatim>\<open>data-theme\<close> attribute; when the storage
  failed the test, the manager carries the system's theme instead. In the second variant
  \<^verbatim>\<open>getInitialTheme()\<close> returns \<open>v\<close>, \<^verbatim>\<open>applyTheme(v)\<close> writes \<open>v\<close> to both
  places, and the constructor, where \<^verbatim>\<open>window.matchMedia\<close> exists and the toggle
  button (if any) has its icon, yields a manager that carries \<open>v\<close> in both.
  \<^verbatim>\<open>applyTheme\<close> of the first variant writes any string it is given to both.
\<close>

theorem stored_string_is_applied_unvalidated:
  assumes "v \<noteq> []"
  shows "(avail \<and> getItem st THEME_A = Inr (Some v) \<longrightarrow>
            (\<forall>mm. getInitialTheme_A avail st mm = Inr v)
          \<and> (\<forall>mm doc. \<exists>s. new_ThemeManager_A avail st mm doc = Inr s
                \<and> currentTheme s = v \<and> data_theme s = Some v))
       \<and> (getItem st THEME_B = Inr (Some v) \<longrightarrow>
            (\<forall>mm. getInitialTheme_B st mm = Inr v)
          \<and> (\<forall>s. currentTheme (fst (applyTheme_B v s)) = v
                \<and> data_theme (fst (applyTheme_B v s)) = Some v)
          \<and> (\<forall>d doc. (case themeToggle doc of None \<Rightarrow> True | Some tg \<Rightarrow> icon_class tg \<noteq> None) \<longrightarrow>
                (\<exists>s. new_ThemeManager_B st (Some d) doc = Inr s
                   \<and> currentTheme s = v \<and> data_theme s = Some v)))
       \<and> (\<forall>mm doc. \<exists>s. new_ThemeManager_A False st mm doc = Inr s
             \<and> currentTheme s = system_theme_A mm \<and> data_theme s = Some (system_theme_A mm))
       \<and> (\<forall>s. currentTheme (applyTheme_A v s) = v \<and> data_theme (applyTheme_A v s) = Some v)"
proof -
  have a: "avail \<and> getItem st THEME_A = Inr (Some v) \<longrightarrow>
            (\<forall>mm. getInitialTheme_A avail st mm = Inr v)
          \<and> (\<forall>mm doc. \<exists>s. new_ThemeManager_A avail st mm doc = Inr s
                \<and> currentTheme s = v \<and> data_theme s = Some v)"
    using assms
    by (simp add: getInitialTheme_A_stored new_ThemeManager_A_def data_theme_applyTheme_A
        currentTheme_applyTheme_A)
  have b: "getItem st THEME_B = Inr (Some v) \<longrightarrow>
            (\<forall>mm. getInitialTheme_B st mm = Inr v)
          \<and> (\<forall>s. currentTheme (fst (applyTheme_B v s)) = v
                \<and> data_theme (fst (applyTheme_B v s)) = Some v)
          \<and> (\<forall>d doc. (case themeToggle doc of None \<Rightarrow> True | Some tg \<Rightarrow> icon_class tg \<noteq> None) \<longrightarrow>
                (\<exists>s. new_ThemeManager_B st (Some d) doc = Inr s
                   \<and> currentTheme s = v \<and> data_theme s = Some v))"
    using assms new_ThemeManager_B_stored [of st v]
    by (simp add: getInitialTheme_B_stored data_theme_applyTheme_B currentTheme_applyTheme_B)
  show ?thesis
    using a b new_ThemeManager_A_unavailable [of st]
    by (simp add: data_theme_applyTheme_A currentTheme_applyTheme_A)
qed

text \<open>
  The amended C10 with the string \<open>sepia\<close> stored in a working storage while the system
  prefers dark: it is returned, and both constructors make it the root's
  \<^verbatim>\<open>data-theme\<close>.
\<close>

theorem stored_string_is_applied_unvalidated_witness:
  "''sepia'' \<noteq> []
   \<and> getItem \<lparr>items = [THEME_A \<mapsto> ''sepia'', THEME_B \<mapsto> ''sepia''], blocked = False, quota_full = False\<rparr>
        THEME_A = Inr (Some ''sepia'')
   \<and> getItem \<lparr>items = [THEME_A \<mapsto> ''sepia'', THEME_B \<mapsto> ''sepia''], blocked = False, quota_full = False\<rparr>
        THEME_B = Inr (Some ''sepia'')
   \<and> getInitialTheme_A True
        \<lparr>items = [THEME_A \<mapsto> ''sepia'', THEME_B \<mapsto> ''sepia''], blocked = False, quota_full = False\<rparr>
        (Some True) = Inr ''sepia''
   \<and> getInitialTheme_B
        \<lparr>items = [THEME_A \<mapsto> ''sepia'', THEME_B \<mapsto> ''sepia''], blocked = False, quota_full = False\<rparr>
        (Some True) = Inr ''sepia''
   \<and> (case new_ThemeManager_A True
              \<lparr>items = [THEME_A \<mapsto> ''sepia'', THEME_B \<mapsto> ''sepia''], blocked = False, quota_full = False\<rparr>
              (Some True)
              \<lparr>themeToggle = None, currentTheme = [], data_theme = None, body_transition = [],
                transition_timers = 0\<rparr> of
         Inl e \<Rightarrow> False
       | Inr s \<Rightarrow> data_theme s = Some ''sepia'')
   \<and> (case new_ThemeManager_B
              \<lparr>items = [THEME_A \<mapsto> ''sepia'', THEME_B \<mapsto> ''sepia''], blocked = False, quota_full = False\<rparr>
              (Some True)
              \<lparr>themeToggle = None, currentTheme = [], data_theme = None, body_transition = [],
                transition_timers = 0\<rparr> of
         Inl e \<Rightarrow> False
       | Inr s \<Rightarrow> data_theme s = Some ''sepia'')"
proof -
  let ?st = "\<lparr>items = [THEME_A \<mapsto> ''sepia'', THEME_B \<mapsto> ''sepia''], blocked = False, quota_full = False\<rparr>"
  let ?doc = "\<lparr>themeToggle = None, currentTheme = [], data_theme = None, body_transition = [],
                transition_timers = 0\<rparr>"
  have a: "getItem ?st THEME_A = Inr (Some ''sepia'')"
    and b: "getItem ?st THEME_B = Inr (Some ''sepia'')"
    by (simp_all add: getItem_def THEME_A_def THEME_B_def)
  have n: "''sepia'' \<noteq> []"
    by simp
  note th = stored_string_is_applied_unvalidated [OF n, of True ?st]
  have ga: "\<forall>mm. getInitialTheme_A True ?st mm = Inr ''sepia''"
    and ca: "\<forall>mm doc. \<exists>s. new_ThemeManager_A True ?st mm doc = Inr s
                \<and> currentTheme s = ''sepia'' \<and> data_theme s = Some ''sepia''"
    using th a by blast+
  have gb: "\<forall>mm. getInitialTheme_B ?st mm = Inr ''sepia''"
    and cb: "\<forall>d doc. (case themeToggle doc of None \<Rightarrow> True | Some tg \<Rightarrow> icon_class tg \<noteq> None) \<longrightarrow>
                (\<exists>s. new_ThemeManager_B ?st (Some d) doc = Inr s
                   \<and> currentTheme s = ''sepia'' \<and> data_theme s = Some ''sepia'')"
    using th b by blast+
  from ca obtain s where "new_ThemeManager_A True ?st (Some True) ?doc = Inr s"
    and "data_theme s = Some ''sepia''"
    by blast
  then have c: "case new_ThemeManager_A True ?st (Some True) ?doc of
                  Inl e \<Rightarrow> False | Inr s \<Rightarrow> data_theme s = Some ''sepia''"
    by simp
  have "case themeToggle ?doc of None \<Rightarrow> True | Some tg \<Rightarrow> icon_class tg \<noteq> None"
    by simp
  with cb obtain s' where "new_ThemeManager_B ?st (Some True) ?doc = Inr s'"
    and "data_theme s' = Some ''sepia''"
    by blast
  then have d: "case new_ThemeManager_B ?st (Some True) ?doc of
                  Inl e \<Rightarrow> False | Inr s \<Rightarrow> data_theme s = Some ''sepia''"
    by simp
  show ?thesis
    using a b ga gb c d by simp
qed

text \<open>
  C8. Let the starting theme be \<open>t\<close>, \<open>light\<close> or \<open>dark\<close>: the manager's
  \<^verbatim>\<open>currentTheme\<close> and the root's \<^verbatim>\<open>data-theme\<close> attribute both hold \<open>t\<close>, as
  they do whenever \<^verbatim>\<open>applyTheme(t)\<close> has run. Then one \<^verbatim>\<open>toggleTheme()\<close> changes
  the attribute and a second one restores it, whatever the storage does. The second
  variant's attribute is restored as well, even when its calls throw.
\<close>

theorem toggleTheme_twice_restores_theme:
  assumes "t = ''light'' \<or> t = ''dark''"
    and "currentTheme s = t" and "data_theme s = Some t"
  shows "data_theme (fst (toggleTheme_A avail (toggleTheme_A avail (s, st)))) = Some t
       \<and> data_theme (fst (toggleTheme_A avail (s, st))) \<noteq> Some t
       \<and> data_theme (fst (fst (toggleTheme_B (fst (toggleTheme_B (s, st)))))) = Some t
       \<and> data_theme (applyTheme_A t s') = Some t \<and> currentTheme (applyTheme_A t s') = t"
proof -
  obtain s1 st1 where r1: "toggleTheme_A avail (s, st) = (s1, st1)"
    by (cases "toggleTheme_A avail (s, st)")
  have s1: "s1 = applyTheme_A (if currentTheme s = ''light'' then ''dark'' else ''light'') s"
    using fst_toggleTheme_A [of avail s st] r1 by simp
  obtain b1 bst1 e1 where q1: "toggleTheme_B (s, st) = ((b1, bst1), e1)"
    by (cases "toggleTheme_B (s, st)") auto
  have b1: "b1 = fst (applyTheme_B (if currentTheme s = ''light'' then ''dark'' else ''light'') s)"
    using fst_toggleTheme_B [of s st] q1 by simp
  show ?thesis
    using assms
    by (auto simp: r1 q1 s1 b1 fst_toggleTheme_A fst_toggleTheme_B data_theme_applyTheme_A
        currentTheme_applyTheme_A data_theme_applyTheme_B currentTheme_applyTheme_B)
qed

text \<open>
  C8 from the light theme with a working storage: \<open>dark\<close> after one call, \<open>light\<close>
  again after two.
\<close>

theorem toggleTheme_twice_restores_theme_witness:
  "currentTheme \<lparr>themeToggle = Some \<lparr>icon_class = Some ''fas fa-moon'', aria_pressed = Some ''false''\<rparr>,
                  currentTheme = ''light'', data_theme = Some ''light'', body_transition = [],
                  transition_timers = 0\<rparr> = ''light''
   \<and> data_theme (fst (toggleTheme_A True
        (\<lparr>themeToggle = Some \<lparr>icon_class = Some ''fas fa-moon'', aria_pressed = Some ''false''\<rparr>,
           currentTheme = ''light'', data_theme = Some ''light'', body_transition = [],
           transition_timers = 0\<rparr>,
         \<lparr>items = Map.empty, blocked = False, quota_full = False\<rparr>))) = Some ''dark''
   \<and> data_theme (fst (toggleTheme_A True (toggleTheme_A True
        (\<lparr>themeToggle = Some \<lparr>icon_class = Some ''fas fa-moon'', aria_pressed = Some ''false''\<rparr>,
           currentTheme = ''light'', data_theme = Some ''light'', body_transition = [],
           transition_timers = 0\<rparr>,
         \<lparr>items = Map.empty, blocked = False, quota_full = False\<rparr>)))) = Some ''light''"
proof -
  let ?s = "\<lparr>themeToggle = Some \<lparr>icon_class = Some ''fas fa-moon'', aria_pressed = Some ''false''\<rparr>,
             currentTheme = ''light'', data_theme = Some ''light'', body_transition = [],
             transition_timers = 0\<rparr>"
  let ?st = "\<lparr>items = Map.empty, blocked = False, quota_full = False\<rparr>"
  have one: "data_theme (fst (toggleTheme_A True (?s, ?st))) = Some ''dark''"
    by (simp add: fst_toggleTheme_A data_theme_applyTheme_A)
  show ?thesis
    using toggleTheme_twice_restores_theme [of "''light''" ?s True ?st] one by simp
qed

text \<open>
  C2 holds in the first variant when the storage failed the availability test: no theme
  operation touches the storage then, and none throws. Its \<^verbatim>\<open>toggleTheme\<close> is total
  in any case.
\<close>

lemma theme_operations_A_skip_unavailable_storage:
  "getInitialTheme_A False st mm = Inr (system_theme_A mm)
   \<and> snd (toggleTheme_A False (s, st)) = st
   \<and> snd (systemThemeChanged_A False matches (s, st)) = None"
  by (simp add: getInitialTheme_A_def toggleTheme_A_def systemThemeChanged_A_def Let_def)

lemma isLocalStorageAvailable_iff:
  "isLocalStorageAvailable st = (\<not> blocked st \<and> \<not> quota_full st)"
  by (simp add: isLocalStorageAvailable_def setItem_def removeItem_def)

text \<open>
  With the constant computed from the storage the operations then work on, the first
  variant's \<^verbatim>\<open>getInitialTheme\<close> and listener do not throw either.
\<close>

lemma theme_operations_A_do_not_throw:
  "(\<exists>v. getInitialTheme_A (isLocalStorageAvailable st) st mm = Inr v)
   \<and> snd (systemThemeChanged_A (isLocalStorageAvailable st) matches (s, st)) = None"
  by (auto simp: isLocalStorageAvailable_iff getInitialTheme_A_def systemThemeChanged_A_def
      getItem_def split: option.splits)

text \<open>
  A storage that passed the test at load and throws on access afterwards still makes the
  first variant's \<^verbatim>\<open>getInitialTheme\<close> and listener throw: neither is inside a
  \<^verbatim>\<open>try\<close> block.
\<close>

lemma theme_operations_A_throw_when_blocked_after_load:
  "blocked st \<Longrightarrow>
     getInitialTheme_A True st mm = Inl SecurityError
     \<and> snd (systemThemeChanged_A True matches (s, st)) = Some SecurityError
     \<and> snd (toggleTheme_A True (s, st)) = st"
  by (simp add: getInitialTheme_A_def systemThemeChanged_A_def toggleTheme_A_def getItem_def
      setItem_def Let_def)

text \<open>
  C2 fails in the second variant, which reads and writes the storage unguarded: on a
  storage that throws on access, \<^verbatim>\<open>getInitialTheme()\<close>, and with it the constructor,
  \<^verbatim>\<open>toggleTheme()\<close> and the colour-scheme listener each end with the storage's
  exception.
\<close>

theorem theme_operations_B_throw_on_blocked_storage:
  "getInitialTheme_B \<lparr>items = Map.empty, blocked = True, quota_full = False\<rparr> (Some False)
     = Inl SecurityError
   \<and> new_ThemeManager_B \<lparr>items = Map.empty, blocked = True, quota_full = False\<rparr> (Some False)
        \<lparr>themeToggle = None, currentTheme = [], data_theme = None, body_transition = [],
          transition_timers = 0\<rparr> = Inl SecurityError
   \<and> snd (toggleTheme_B
        (\<lparr>themeToggle = None, currentTheme = ''light'', data_theme = Some ''light'',
           body_transition = [], transition_timers = 0\<rparr>,
         \<lparr>items = Map.empty, blocked = True, quota_full = False\<rparr>)) = Some SecurityError
   \<and> snd (systemThemeChanged_B True
        (\<lparr>themeToggle = None, currentTheme = ''light'', data_theme = Some ''light'',
           body_transition = [], transition_timers = 0\<rparr>,
         \<lparr>items = Map.empty, blocked = True, quota_full = False\<rparr>)) = Some SecurityError"
  by (simp add: getInitialTheme_B_def new_ThemeManager_B_def toggleTheme_B_def
      systemThemeChanged_B_def getItem_def setItem_def applyTheme_B_def Let_def)

subsection \<open>Video manager\<close>

lemma includes_prefix: "prefix pat s \<Longrightarrow> string_includes s pat"
  by (cases s) simp_all

lemma includes_self: "string_includes pat pat"
  by (simp add: includes_prefix)

lemma includes_append_right: "string_includes (u @ a # pat) pat"
  by (induction u) (simp_all add: includes_self)

lemma occurrences_zero_iff: "occurrences s pat = 0 \<longleftrightarrow> \<not> string_includes s pat"
  by (induction s) simp_all

lemma occurrences_short: "length s < length pat \<Longrightarrow> occurrences s pat = 0"
proof (induction s)
  case Nil
  then show ?case by auto
next
  case (Cons c cs)
  have "\<not> prefix pat (c # cs)"
    using Cons.prems prefix_length_le [of pat "c # cs"] by auto
  with Cons show ?case by simp
qed

lemma occurrences_self: "pat \<noteq> [] \<Longrightarrow> occurrences pat pat = 1"
  by (cases pat) (simp_all add: occurrences_short)

text \<open>
  A pattern that does not start inside \<open>u\<close> cannot start there once a character foreign
  to the pattern, followed by the pattern, is appended.
\<close>

lemma not_prefix_across:
  assumes "a \<notin> set pat" and "\<not> prefix pat u"
  shows "\<not> prefix pat (u @ a # pat)"
proof
  assume "prefix pat (u @ a # pat)"
  then consider "prefix pat u" | us where "pat = u @ us" "prefix us (a # pat)"
    by (auto simp: prefix_append)
  then show False
  proof cases
    case 1
    with assms show False by simp
  next
    case 2
    show False
    proof (cases us)
      case Nil
      with 2 assms show False by simp
    next
      case (Cons b bs)
      with 2 have "b = a" by simp
      with 2 Cons assms show False by simp
    qed
  qed
qed

lemma occurrences_append_once:
  assumes "a \<notin> set pat" and "pat \<noteq> []"
  shows "\<not> string_includes u pat \<Longrightarrow> occurrences (u @ a # pat) pat = 1"
proof (induction u)
  case Nil
  have "\<not> prefix pat (a # pat)"
    using not_prefix_across [OF assms(1), of "[]"] assms(2) by simp
  then show ?case
    using assms by (simp add: occurrences_self)
next
  case (Cons c cs)
  then have np: "\<not> prefix pat (c # cs)" and ni: "\<not> string_includes cs pat"
    by simp_all
  have "\<not> prefix pat ((c # cs) @ a # pat)"
    using not_prefix_across [OF assms(1) np] .
  with Cons.IH [OF ni] show ?case by simp
qed

lemma replace_first_appended:
  assumes "a \<notin> set pat"
  shows "\<not> string_includes u pat \<Longrightarrow> replace_first (u @ a # pat) (a # pat) [] = u"
proof (induction u)
  case Nil
  then show ?case by simp
next
  case (Cons c cs)
  then have ni: "\<not> string_includes cs pat"
    by simp
  have "\<not> prefix pat cs"
    using ni includes_prefix by blast
  then have "\<not> prefix pat (cs @ a # pat)"
    using not_prefix_across [OF assms] by blast
  then have "\<not> prefix (a # pat) ((c # cs) @ a # pat)"
    by simp
  with Cons.IH [OF ni] show ?case by auto
qed

lemma playVideo_idem: "playVideo (playVideo f) = playVideo f"
  by (cases f) (auto simp: playVideo_def includes_append_right split: option.splits)

text \<open>
  C7. A second \<^verbatim>\<open>playVideo\<close> in a row changes nothing, on any iframe. Let the iframe
  have an embed URL \<open>u\<close> (a \<^verbatim>\<open>src\<close> attribute that is truthy, as \<^verbatim>\<open>playVideo\<close>
  itself tests it) that does not contain \<^verbatim>\<open>autoplay=1\<close>. Then the first call appends
  \<^verbatim>\<open>&autoplay=1\<close>, and \<^verbatim>\<open>autoplay=1\<close> occurs exactly once in the URL that two
  calls leave.
\<close>

theorem playVideo_twice_appends_once:
  assumes "src f = Some u" and "truthy (src f)" and "\<not> string_includes u ''autoplay=1''"
  shows "src (playVideo f) = Some (u @ ''&autoplay=1'')
       \<and> src (playVideo (playVideo f)) = Some (u @ ''&autoplay=1'')
       \<and> occurrences (u @ ''&autoplay=1'') ''autoplay=1'' = 1
       \<and> (\<forall>g. playVideo (playVideo g) = playVideo g)"
proof -
  have one: "src (playVideo f) = Some (u @ ''&autoplay=1'')"
    using assms by (simp add: playVideo_def)
  have occ: "occurrences (u @ CHR ''&'' # ''autoplay=1'') ''autoplay=1'' = 1"
    using assms(3) by (intro occurrences_append_once) simp_all
  show ?thesis
    using one occ by (simp add: playVideo_idem)
qed

text \<open>C7 on a YouTube embed URL.\<close>

theorem playVideo_twice_witness:
  "truthy (src (Iframe (Some ''https://www.youtube.com/embed/abc?rel=0'')))
   \<and> \<not> string_includes ''https://www.youtube.com/embed/abc?rel=0'' ''autoplay=1''
   \<and> playVideo (playVideo (Iframe (Some ''https://www.youtube.com/embed/abc?rel=0'')))
       = Iframe (Some ''https://www.youtube.com/embed/abc?rel=0&autoplay=1'')
   \<and> occurrences ''https://www.youtube.com/embed/abc?rel=0&autoplay=1'' ''autoplay=1'' = 1"
proof -
  have n: "\<not> string_includes ''https://www.youtube.com/embed/abc?rel=0'' ''autoplay=1''"
    by simp
  have t: "truthy (src (Iframe (Some ''https://www.youtube.com/embed/abc?rel=0'')))"
    by simp
  have e: "\<And>f. src f = Some ''https://www.youtube.com/embed/abc?rel=0&autoplay=1''
       \<Longrightarrow> f = Iframe (Some ''https://www.youtube.com/embed/abc?rel=0&autoplay=1'')"
    by (metis iframe_el.collapse)
  show ?thesis
    using playVideo_twice_appends_once
      [of "Iframe (Some ''https://www.youtube.com/embed/abc?rel=0'')"
          "''https://www.youtube.com/embed/abc?rel=0''", OF _ t n] n t e
    by simp
qed

lemma embed_url_pause_card:
  "embed_url (pause_card c) =
     map_option (\<lambda>u. if u \<noteq> [] \<and> string_includes u ''autoplay=1''
                      then replace_first u ''&autoplay=1'' [] else u) (embed_url c)"
  by (simp add: pause_card_def embed_url_def split: option.splits)

text \<open>
  What the second variant's hover does, on a manager whose card \<open>i\<close> has its listeners:
  \<^verbatim>\<open>pauseAllVideos\<close> runs over every card, with no test for the hovered one. A
  non-empty URL that contains \<^verbatim>\<open>autoplay=1\<close> loses its first
  \<^verbatim>\<open>&autoplay=1\<close>; a URL to which \<^verbatim>\<open>playVideo\<close> appended the parameter gets
  its former value back.
\<close>

lemma mouseenter_B_runs_over_all_cards:
  assumes "handlers_installed vm i" and "j < length (videoCards vm)"
  shows "embed_url (videoCards (mouseenter_B i vm) ! j) =
           map_option (\<lambda>u. if u \<noteq> [] \<and> string_includes u ''autoplay=1''
                            then replace_first u ''&autoplay=1'' [] else u)
             (embed_url (videoCards vm ! j))
       \<and> (embed_url (videoCards vm ! j) = Some (v @ ''&autoplay=1'')
            \<and> \<not> string_includes v ''autoplay=1'' \<longrightarrow>
            embed_url (videoCards (mouseenter_B i vm) ! j) = Some v)"
proof -
  have r: "\<not> string_includes v ''autoplay=1'' \<Longrightarrow>
      replace_first (v @ CHR ''&'' # ''autoplay=1'') (CHR ''&'' # ''autoplay=1'') [] = v"
    by (intro replace_first_appended) simp_all
  have i: "string_includes (v @ CHR ''&'' # ''autoplay=1'') ''autoplay=1''"
    by (rule includes_append_right)
  show ?thesis
    using assms r i
    by (simp add: mouseenter_B_def pauseAllVideos_def embed_url_pause_card)
qed

text \<open>
  Where the browser has no \<^verbatim>\<open>IntersectionObserver\<close>, the second variant's
  constructor throws at the first card that has an iframe with a URL to observe and an
  overlay, and no card from there on gets a listener.
\<close>

lemma new_VideoManager_B_without_observer:
  "new_VideoManager_B False
     [\<lparr>iframe = Some (Iframe (Some ''https://www.youtube.com/embed/abc?rel=0'')), overlay = True\<rparr>,
      \<lparr>iframe = Some (Iframe (Some ''https://www.youtube.com/embed/xyz?rel=0'')), overlay = True\<rparr>]
   = (\<lparr>videoCards =
         [\<lparr>iframe = Some (Iframe (Some ''https://www.youtube.com/embed/abc?rel=0'')), overlay = True\<rparr>,
          \<lparr>iframe = Some (Iframe (Some ''https://www.youtube.com/embed/xyz?rel=0'')), overlay = True\<rparr>],
       listening = [False, False]\<rparr>, Some ReferenceError)"
  by (simp add: new_VideoManager_B_def setupVideoCard_B_def setupLazyLoading_B_def)

text \<open>
  C3 fails in both variants. In the second, on a browser with
  \<^verbatim>\<open>IntersectionObserver\<close>, the overlay of the only card is clicked, which appends
  the parameter, and the card is then hovered: the hover strips the parameter from the
  hovered card's own URL. In the first, the overlay of the second card is clicked and the
  first card is then hovered: the second card's URL keeps the parameter.
\<close>

theorem hover_strips_own_url_or_nothing:
  "embed_url (videoCards (overlay_click 0 (fst (new_VideoManager_B True
     [\<lparr>iframe = Some (Iframe (Some ''https://www.youtube.com/embed/abc?rel=0'')), overlay = True\<rparr>])))
     ! 0) = Some ''https://www.youtube.com/embed/abc?rel=0&autoplay=1''
   \<and> embed_url (videoCards (mouseenter_B 0 (overlay_click 0 (fst (new_VideoManager_B True
     [\<lparr>iframe = Some (Iframe (Some ''https://www.youtube.com/embed/abc?rel=0'')), overlay = True\<rparr>]))))
     ! 0) = Some ''https://www.youtube.com/embed/abc?rel=0''
   \<and> embed_url (videoCards (mouseenter_A 0 (overlay_click 1 (new_VideoManager_A
     [\<lparr>iframe = Some (Iframe (Some ''https://www.youtube.com/embed/abc?rel=0'')), overlay = True\<rparr>,
      \<lparr>iframe = Some (Iframe (Some ''https://www.youtube.com/embed/xyz?rel=0'')), overlay = True\<rparr>])))
     ! 1) = Some ''https://www.youtube.com/embed/xyz?rel=0&autoplay=1''"
  by (simp add: new_VideoManager_A_def new_VideoManager_B_def setupVideoCard_A_def
      setupVideoCard_B_def setupLazyLoading_B_def overlay_click_def mouseenter_A_def
      mouseenter_B_def handlers_installed_def pauseAllVideos_def pause_card_def playVideo_def
      embed_url_def)

subsection \<open>Teardown\<close>

lemma fold_animate_A_inactive: "\<not> isActive s \<Longrightarrow> fold (\<lambda>_. animate_A) hs s = s"
  by (induction hs) (simp_all add: animate_A_def)

lemma fold_animate_B_inactive: "\<not> isActive s \<Longrightarrow> fold (\<lambda>_. animate_B) hs s = s"
  by (induction hs) (simp_all add: animate_B_def)

lemma destroy_A_twice: "destroy_A (destroy_A s) = destroy_A s"
  by (simp add: destroy_A_def ps_cancel_frame_def Let_def split: option.splits)

lemma destroy_B_twice: "destroy_B (destroy_B s) = destroy_B s"
  by (simp add: destroy_B_def)

text \<open>
  The particle system's part of C5 holds in both variants: a second \<^verbatim>\<open>destroy()\<close>
  changes nothing, and a frame after it runs at most callbacks that return at the
  \<^verbatim>\<open>isActive\<close> test, so it changes nothing but the browser's queue.
\<close>

lemma particle_frame_after_destroy:
  "frame_tick_A (destroy_A (destroy_A s)) = (destroy_A s)\<lparr>ps_pending := []\<rparr>
   \<and> frame_tick_B (destroy_B (destroy_B s)) = (destroy_B s)\<lparr>ps_pending := []\<rparr>"
proof -
  have a: "\<not> isActive ((destroy_A s)\<lparr>ps_pending := []\<rparr>)"
    by (simp add: destroy_A_def ps_cancel_frame_def Let_def split: option.splits)
  have b: "\<not> isActive ((destroy_B s)\<lparr>ps_pending := []\<rparr>)"
    by (simp add: destroy_B_def)
  show ?thesis
    by (simp add: destroy_A_twice destroy_B_twice frame_tick_A_def frame_tick_B_def
        fold_animate_A_inactive [OF a] fold_animate_B_inactive [OF b])
qed

text \<open>So does the reveal observer's: it has no frame loop, and disconnecting twice is disconnecting once.\<close>

lemma reveal_destroy_twice: "reveal_destroy (reveal_destroy s) = reveal_destroy s"
  by (simp add: reveal_destroy_def split: option.splits)

lemma cursor_after_first_frame:
  "cursor_frame_tick_A (mousemove 100 50 (new_CustomCursor_A True True False 1)) =
     \<lparr>has_cursor = True, has_cursorDot = True, isVisible = True, mouseX = 100, mouseY = 50,
      cursorX = 10, cursorY = 5, dotX = 15, dotY = 15/2,
      cursor_translate = Some (- 10, - 15), dot_translate = Some (11, 7/2),
      local_frame_id = Some 2, cursor_animationFrameId = Some 1, cc_pending = [2],
      cc_next_handle = 3\<rparr>"
  by (simp add: new_CustomCursor_A_def cursor_init_A_def updateCursor_A_def mousemove_def
      cursor_frame_tick_A_def Let_def)

text \<open>
  Before the first frame has run, the field still names the queued handle and
  \<^verbatim>\<open>destroy()\<close> does empty the queue.
\<close>

lemma cursor_destroy_before_first_frame:
  "h \<noteq> 0 \<Longrightarrow> cc_pending (cursor_destroy_A (new_CustomCursor_A True True False h)) = []"
  by (simp add: new_CustomCursor_A_def cursor_init_A_def updateCursor_A_def
      cursor_destroy_A_def Let_def)

text \<open>
  C5 fails for the custom cursor. The field \<^verbatim>\<open>animationFrameId\<close> keeps the handle of
  the first frame requested; once that frame has run, \<^verbatim>\<open>destroy()\<close> cancels a handle
  that is no longer queued. Here the cursor is constructed on a wide viewport with both
  elements, the pointer moves to (100, 50) and one frame runs; after two calls of
  \<^verbatim>\<open>destroy()\<close> the frame requested by that run (handle 2) is still queued, and the next
  frame moves the ring from \<^verbatim>\<open>translate(-10px, -15px)\<close> to
  \<^verbatim>\<open>translate(-1px, -10.5px)\<close> and requests another (handle 3).
\<close>

theorem cursor_loop_survives_destroy:
  "cc_pending (cursor_destroy_A (cursor_destroy_A
      (cursor_frame_tick_A (mousemove 100 50 (new_CustomCursor_A True True False 1))))) = [2]
   \<and> cursor_translate (cursor_destroy_A (cursor_destroy_A
      (cursor_frame_tick_A (mousemove 100 50 (new_CustomCursor_A True True False 1)))))
       = Some (- 10, - 15)
   \<and> cursor_translate (cursor_frame_tick_A (cursor_destroy_A (cursor_destroy_A
      (cursor_frame_tick_A (mousemove 100 50 (new_CustomCursor_A True True False 1))))))
       = Some (- 1, - (21/2))
   \<and> cc_pending (cursor_frame_tick_A (cursor_destroy_A (cursor_destroy_A
      (cursor_frame_tick_A (mousemove 100 50 (new_CustomCursor_A True True False 1)))))) = [3]"
  unfolding cursor_after_first_frame
  by (simp add: cursor_destroy_A_def cursor_frame_tick_A_def updateCursor_A_def Let_def)

subsection \<open>Menu and scroll lock\<close>












end
